theory Spec2Isabelle
  imports Main "HOL-Library.Sublist"
begin

section \<open>The homework answer bot (main.py)\<close>

text \<open>
  The program is one Python module: a start-up sequence that reads the process
  environment, a global dictionary \<^verbatim>\<open>user_grades\<close>, two answer services that wrap
  calls to a generative model, and five handlers registered with the messaging
  library. The embedding below follows the module top to bottom.

  \<^item> A Python \<^verbatim>\<open>str\<close> is a list of code points (\<open>pystr\<close>); an ASCII literal
    of the source is written \<open>str ''...''\<close>, a line feed is code point 10.
  \<^item> The dictionary \<^verbatim>\<open>user_grades\<close> is a map from user identifiers to labels, passed
    to each handler and returned in its result.
  \<^item> Every call that leaves the module is recorded, in order, in the \<open>trace\<close> of the
    handler's result. What the generative model, the image decoder and the file
    download answer is given by a \<open>world\<close>: each of these calls either raises or
    returns, as the \<^verbatim>\<open>try\<close> blocks of the source anticipate.
  \<^item> The outbound operations of the transport (\<^verbatim>\<open>reply_text\<close>, \<^verbatim>\<open>query.answer\<close>,
    \<^verbatim>\<open>edit_message_text\<close>) are recorded in the trace and taken to complete.
    Calls to \<^verbatim>\<open>logger.error\<close> and \<^verbatim>\<open>print\<close> are not recorded.
  \<^item> An exception that leaves a handler is the field \<open>raised\<close> of its result.
  \<^item> Updates are handled one after the other: the application is built without
    concurrent updates, and a handler that raised leaves the registry as it had
    made it by then.
\<close>

subsection \<open>Python strings\<close>

type_synonym pystr = "nat list"

definition str :: "string \<Rightarrow> pystr" where
  "str s = map of_char s"

text \<open>
  The code points that \<^verbatim>\<open>str.strip()\<close> without an argument removes: those for which
  \<^verbatim>\<open>str.isspace\<close> holds.
\<close>

definition is_space :: "nat \<Rightarrow> bool" where
  "is_space c \<longleftrightarrow>
     (9 \<le> c \<and> c \<le> 13) \<or> (28 \<le> c \<and> c \<le> 32) \<or> c = 133 \<or> c = 160 \<or> c = 5760 \<or>
     (8192 \<le> c \<and> c \<le> 8202) \<or> c = 8232 \<or> c = 8233 \<or> c = 8239 \<or> c = 8287 \<or>
     c = 12288"

definition strip :: "pystr \<Rightarrow> pystr" where
  "strip s = rev (dropWhile is_space (rev (dropWhile is_space s)))"

text \<open>
  \<^verbatim>\<open>s.replace(old, new)\<close>: every non-overlapping occurrence of \<open>old\<close>, found from the
  left, is replaced. With an empty \<open>old\<close> Python puts \<open>new\<close> before every code point
  and at the end.
\<close>

function py_replace :: "pystr \<Rightarrow> pystr \<Rightarrow> pystr \<Rightarrow> pystr" where
  "py_replace old new [] = (if old = [] then new else [])"
| "py_replace old new (c # cs) =
     (if old = [] then new @ c # py_replace old new cs
      else if prefix old (c # cs) then new @ py_replace old new (drop (length old) (c # cs))
      else c # py_replace old new cs)"
  by pat_completeness auto
termination
  by (relation "measure (\<lambda>(old, new, s). length s)") auto

text \<open>Truthiness of an \<^verbatim>\<open>Optional[str]\<close>, as tested by \<^verbatim>\<open>if answer:\<close>.\<close>

fun truthy :: "pystr option \<Rightarrow> bool" where
  "truthy None = False"
| "truthy (Some s) = (s \<noteq> [])"

subsection \<open>Start-up (lines 21 to 56)\<close>

datatype exn = KeyError | IndexError | ValueError

record config =
  gemini_api_key :: pystr
  GROQ_API_KEY :: "pystr option"
  TELEGRAM_BOT_TOKEN :: pystr

text \<open>
  The environment is \<^verbatim>\<open>os.environ\<close> after \<^verbatim>\<open>load_dotenv()\<close>. The subscript
  \<^verbatim>\<open>os.environ["GEMINI_API_KEY"]\<close> raises \<^verbatim>\<open>KeyError\<close> on a missing name;
  \<^verbatim>\<open>os.environ.get\<close> and \<^verbatim>\<open>os.getenv\<close> return \<^verbatim>\<open>None\<close>. The test
  \<^verbatim>\<open>not TELEGRAM_BOT_TOKEN\<close> holds for \<^verbatim>\<open>None\<close> and for the empty string. The
  calls that set up the model client between the two are taken to return.
\<close>

definition startup :: "(pystr \<rightharpoonup> pystr) \<Rightarrow> exn + config" where
  "startup env =
     (case env (str ''GEMINI_API_KEY'') of
        None \<Rightarrow> Inl KeyError
      | Some key \<Rightarrow>
          (let groq = env (str ''GROQ_API_KEY'');
               token = env (str ''TELEGRAM_BOT_TOKEN'')
           in if \<not> truthy token then Inl ValueError
              else Inr \<lparr>gemini_api_key = key, GROQ_API_KEY = groq,
                        TELEGRAM_BOT_TOKEN = the token\<rparr>))"

subsection \<open>The grade table and the registry\<close>

definition GRADE_LEVELS :: "pystr \<rightharpoonup> pystr" where
  "GRADE_LEVELS = map_of
     [(str ''1-5'', str ''elementary''),
      (str ''6-8'', str ''middle''),
      (str ''9-12'', str ''high'')]"

type_synonym registry = "int \<rightharpoonup> pystr"

subsection \<open>The collaborators\<close>

datatype 'a outcome = Raises | Returns 'a

text \<open>
  A response of the generative model; reading its \<^verbatim>\<open>text\<close> attribute raises or
  gives a string.
\<close>

datatype response = Response (response_text: "pystr outcome")

type_synonym bytes = "nat list"
type_synonym image = nat
type_synonym file_handle = nat

record photo_size =
  file_id :: pystr
  width :: nat
  height :: nat

record world =
  send_message :: "pystr \<Rightarrow> response outcome"
  image_open :: "bytes \<Rightarrow> image outcome"
  generate_content :: "pystr \<Rightarrow> image \<Rightarrow> response outcome"
  get_file :: "pystr \<Rightarrow> file_handle outcome"
  download_as_bytearray :: "file_handle \<Rightarrow> bytes outcome"

datatype effect =
    ReplyText pystr
  | ReplyKeyboard pystr "(pystr \<times> pystr) list"
  | AnswerCallback
  | EditMessageText pystr
  | ChatCall pystr
  | ImageOpen bytes
  | VisionCall pystr image
  | GetFile pystr
  | Download file_handle

record result =
  user_grades :: registry
  trace :: "effect list"
  raised :: "exn option"

subsection \<open>The answer services (lines 74 to 114)\<close>

definition homework_prompt :: "pystr \<Rightarrow> pystr \<Rightarrow> pystr" where
  "homework_prompt question grade_level =
     str ''You are helping with '' @ grade_level @ str '' school homework. Question: '' @
     question @ [10, 10] @
     str ''Provide ONLY the direct answer. No explanations unless specifically asked.'' @ [10] @
     str ''Format the answer neatly and clearly.''"

text \<open>
  \<^verbatim>\<open>get_homework_help\<close>: one call of \<^verbatim>\<open>chat_session.send_message\<close>; any exception
  of the call or of reading \<^verbatim>\<open>response.text\<close> is caught and gives \<^verbatim>\<open>None\<close>.
\<close>

definition get_homework_help :: "world \<Rightarrow> pystr \<Rightarrow> pystr \<Rightarrow> effect list \<times> pystr option" where
  "get_homework_help w question grade_level =
     (let prompt = homework_prompt question grade_level
      in ([ChatCall prompt],
          case send_message w prompt of
            Raises \<Rightarrow> None
          | Returns response \<Rightarrow>
              (case response_text response of
                 Raises \<Rightarrow> None
               | Returns t \<Rightarrow> Some (strip t))))"

definition image_prompt :: "pystr \<Rightarrow> pystr" where
  "image_prompt grade_level =
     str ''You are helping with '' @ grade_level @ str '' school homework.'' @ [10] @
     str ''        Look at the image, solve any problems shown, and provide the answers.'' @ [10] @
     str ''        If there are multiple questions, number your answers.'' @ [10] @
     str ''        Provide ONLY the solution/answer without explanations unless specifically asked.'' @ [10] @
     str ''        If you see a math problem, show the final answer.'' @ [10] @
     str ''        If you see a question, provide the direct answer.''"

text \<open>
  \<^verbatim>\<open>analyze_homework_image\<close>: the bytes are decoded, then one call of
  \<^verbatim>\<open>model.generate_content\<close>; an empty \<^verbatim>\<open>response.text\<close> gives \<^verbatim>\<open>None\<close>, and so
  does any exception.
\<close>

definition analyze_homework_image :: "world \<Rightarrow> bytes \<Rightarrow> pystr \<Rightarrow> effect list \<times> pystr option" where
  "analyze_homework_image w image_bytes grade_level =
     (case image_open w image_bytes of
        Raises \<Rightarrow> ([ImageOpen image_bytes], None)
      | Returns img \<Rightarrow>
          (let prompt = image_prompt grade_level
           in ([ImageOpen image_bytes, VisionCall prompt img],
               case generate_content w prompt img of
                 Raises \<Rightarrow> None
               | Returns response \<Rightarrow>
                   (case response_text response of
                      Raises \<Rightarrow> None
                    | Returns t \<Rightarrow> if t \<noteq> [] then Some (strip t) else None))))"

subsection \<open>The handlers (lines 119 to 210)\<close>

definition grade_keyboard :: "(pystr \<times> pystr) list" where
  "grade_keyboard =
     [(str ''Grades 1-5'', str ''grade_1-5''),
      (str ''Grades 6-8'', str ''grade_6-8''),
      (str ''Grades 9-12'', str ''grade_9-12'')]"

definition welcome_message :: pystr where
  "welcome_message =
     [240, 376, 8216, 8249] @ str '' Welcome to the Homework Answer Bot!'' @ [10, 10] @
     str ''Please select your child's grade level:''"

definition start :: "registry \<Rightarrow> result" where
  "start grades =
     \<lparr>user_grades = grades,
      trace = [ReplyKeyboard welcome_message grade_keyboard],
      raised = None\<rparr>"

definition change_grade :: "registry \<Rightarrow> result" where
  "change_grade grades =
     \<lparr>user_grades = grades,
      trace = [ReplyKeyboard (str ''Select new grade level:'') grade_keyboard],
      raised = None\<rparr>"

definition confirmation_message :: "pystr \<Rightarrow> pystr" where
  "confirmation_message grade_range =
     str ''Grade level set to: '' @ grade_range @ [10, 10] @
     str ''You can now send homework questions or photos to get direct answers.'' @ [10] @
     str ''Use /change_grade to change the grade level.''"

text \<open>
  \<^verbatim>\<open>handle_grade_selection\<close>: the subscript \<^verbatim>\<open>GRADE_LEVELS[grade_range]\<close> raises
  \<^verbatim>\<open>KeyError\<close> on a key that is not in the table, before the assignment.
\<close>

definition handle_grade_selection :: "registry \<Rightarrow> int \<Rightarrow> pystr \<Rightarrow> result" where
  "handle_grade_selection grades user_id data =
     (let grade_range = py_replace (str ''grade_'') [] data
      in case GRADE_LEVELS grade_range of
           None \<Rightarrow>
             \<lparr>user_grades = grades, trace = [AnswerCallback], raised = Some KeyError\<rparr>
         | Some label \<Rightarrow>
             \<lparr>user_grades = grades(user_id \<mapsto> label),
              trace = [AnswerCallback, EditMessageText (confirmation_message grade_range)],
              raised = None\<rparr>)"

definition configure_first :: pystr where
  "configure_first = str ''Please set your child's grade level first using /start''"

definition text_apology :: pystr where
  "text_apology = str ''Sorry, I couldn't process that question. Please try again.''"

definition handle_text_question :: "world \<Rightarrow> registry \<Rightarrow> int \<Rightarrow> pystr \<Rightarrow> result" where
  "handle_text_question w grades user_id question =
     (case grades user_id of
        None \<Rightarrow>
          \<lparr>user_grades = grades, trace = [ReplyText configure_first], raised = None\<rparr>
      | Some grade_level \<Rightarrow>
          (case get_homework_help w question grade_level of
             (calls, answer) \<Rightarrow>
               \<lparr>user_grades = grades,
                trace = calls @ [ReplyText (if truthy answer then the answer else text_apology)],
                raised = None\<rparr>))"

definition analyzing_message :: pystr where
  "analyzing_message = str ''Analyzing homework...''"

definition image_apology :: pystr where
  "image_apology = str ''Sorry, I couldn't read that image. Please try a clearer photo.''"

definition photo_error_apology :: pystr where
  "photo_error_apology =
     str ''Sorry, there was an error processing your photo. Please try again.''"

text \<open>
  \<^verbatim>\<open>handle_photo\<close>: \<^verbatim>\<open>update.message.photo[-1]\<close> raises \<^verbatim>\<open>IndexError\<close> on an empty
  list. That exception and those of \<^verbatim>\<open>get_file\<close> and \<^verbatim>\<open>download_as_bytearray\<close>
  reach the \<^verbatim>\<open>except\<close> clause of the handler itself, which replies with its own
  message.
\<close>

definition handle_photo :: "world \<Rightarrow> registry \<Rightarrow> int \<Rightarrow> photo_size list \<Rightarrow> result" where
  "handle_photo w grades user_id photo =
     (case grades user_id of
        None \<Rightarrow>
          \<lparr>user_grades = grades, trace = [ReplyText configure_first], raised = None\<rparr>
      | Some grade_level \<Rightarrow>
          (if photo = [] then
             \<lparr>user_grades = grades,
              trace = [ReplyText analyzing_message, ReplyText photo_error_apology],
              raised = None\<rparr>
           else
             (let fid = file_id (last photo)
              in case get_file w fid of
                   Raises \<Rightarrow>
                     \<lparr>user_grades = grades,
                      trace = [ReplyText analyzing_message, GetFile fid,
                               ReplyText photo_error_apology],
                      raised = None\<rparr>
                 | Returns photo_file \<Rightarrow>
                     (case download_as_bytearray w photo_file of
                        Raises \<Rightarrow>
                          \<lparr>user_grades = grades,
                           trace = [ReplyText analyzing_message, GetFile fid,
                                    Download photo_file, ReplyText photo_error_apology],
                           raised = None\<rparr>
                      | Returns photo_bytes \<Rightarrow>
                          (case analyze_homework_image w photo_bytes grade_level of
                             (calls, analysis) \<Rightarrow>
                               \<lparr>user_grades = grades,
                                trace = [ReplyText analyzing_message, GetFile fid,
                                         Download photo_file] @ calls @
                                        [ReplyText (if truthy analysis then the analysis
                                                    else image_apology)],
                                raised = None\<rparr>)))))"

subsection \<open>Registration of the handlers (lines 215 to 225)\<close>

text \<open>
  An update is a command, a callback query, a photo message or a text message that
  is not a command. \<^verbatim>\<open>CallbackQueryHandler(..., pattern="^grade_")\<close> accepts the
  callback data that the regular expression matches at their start, that is the
  data that begin with \<^verbatim>\<open>grade_\<close>. An update that no handler accepts changes
  nothing.
\<close>

datatype update =
    CommandUpdate int pystr
  | CallbackUpdate int pystr
  | PhotoUpdate int "photo_size list"
  | TextUpdate int pystr

definition grade_pattern :: "pystr \<Rightarrow> bool" where
  "grade_pattern data = prefix (str ''grade_'') data"

definition unhandled :: "registry \<Rightarrow> result" where
  "unhandled grades = \<lparr>user_grades = grades, trace = [], raised = None\<rparr>"

fun dispatch :: "world \<Rightarrow> registry \<Rightarrow> update \<Rightarrow> result" where
  "dispatch w grades (CommandUpdate user_id name) =
     (if name = str ''start'' then start grades
      else if name = str ''change_grade'' then change_grade grades
      else unhandled grades)"
| "dispatch w grades (CallbackUpdate user_id data) =
     (if grade_pattern data then handle_grade_selection grades user_id data
      else unhandled grades)"
| "dispatch w grades (PhotoUpdate user_id photo) = handle_photo w grades user_id photo"
| "dispatch w grades (TextUpdate user_id question) =
     handle_text_question w grades user_id question"

text \<open>
  The registries the running program can hold: empty when the module is loaded,
  then whatever a handled update leaves (also when the handler raised).
\<close>

inductive reachable :: "registry \<Rightarrow> bool" where
  initial: "reachable Map.empty"
| handled: "reachable grades \<Longrightarrow> reachable (user_grades (dispatch w grades u))"

subsection \<open>Worlds and inputs used for evaluation\<close>

text \<open>
  In \<open>failing_world\<close> every collaborator raises. In \<open>mock_world t\<close> every
  collaborator returns, and both model calls answer the text \<open>t\<close>.
\<close>

definition always_raises :: "'a \<Rightarrow> 'b outcome" where
  "always_raises x = Raises"

definition always_returns :: "'b \<Rightarrow> 'a \<Rightarrow> 'b outcome" where
  "always_returns y x = Returns y"

definition always_raises2 :: "'a \<Rightarrow> 'b \<Rightarrow> 'c outcome" where
  "always_raises2 x y = Raises"

definition always_returns2 :: "'c \<Rightarrow> 'a \<Rightarrow> 'b \<Rightarrow> 'c outcome" where
  "always_returns2 z x y = Returns z"

definition failing_world :: world where
  "failing_world =
     \<lparr>send_message = always_raises,
      image_open = always_raises,
      generate_content = always_raises2,
      get_file = always_raises,
      download_as_bytearray = always_raises\<rparr>"

definition mock_world :: "pystr \<Rightarrow> world" where
  "mock_world t =
     \<lparr>send_message = always_returns (Response (Returns t)),
      image_open = always_returns 0,
      generate_content = always_returns2 (Response (Returns t)),
      get_file = always_returns 0,
      download_as_bytearray = always_returns [255, 216, 255]\<rparr>"

text \<open>The calls that reach the chat or the vision inference service.\<close>

fun inference_call :: "effect \<Rightarrow> bool" where
  "inference_call (ChatCall prompt) = True"
| "inference_call (VisionCall prompt img) = True"
| "inference_call e = False"

text \<open>The texts sent with \<^verbatim>\<open>reply_text\<close>, in the order of the calls.\<close>

fun reply_texts :: "effect list \<Rightarrow> pystr list" where
  "reply_texts [] = []"
| "reply_texts (ReplyText t # es) = t # reply_texts es"
| "reply_texts (e # es) = reply_texts es"

definition small_photo :: photo_size where
  "small_photo = \<lparr>file_id = str ''small'', width = 90, height = 51\<rparr>"

definition large_photo :: photo_size where
  "large_photo = \<lparr>file_id = str ''large'', width = 1280, height = 720\<rparr>"

definition middle_registry :: registry where
  "middle_registry = [1 \<mapsto> str ''middle'']"

definition environment_without_gemini :: "pystr \<rightharpoonup> pystr" where
  "environment_without_gemini =
     [str ''TELEGRAM_BOT_TOKEN'' \<mapsto> str ''123:abc'', str ''GROQ_API_KEY'' \<mapsto> str ''gsk'']"

definition environment_without_groq :: "pystr \<rightharpoonup> pystr" where
  "environment_without_groq =
     [str ''TELEGRAM_BOT_TOKEN'' \<mapsto> str ''123:abc'', str ''GEMINI_API_KEY'' \<mapsto> str ''key'']"

definition multiplication_question :: pystr where
  "multiplication_question = str ''What is 7'' @ [215] @ str ''8?''"

section \<open>Properties\<close>

subsection \<open>Facts about the string operations\<close>

lemma strip_empty_iff: "strip s = [] \<longleftrightarrow> (\<forall>c\<in>set s. is_space c)"
proof
  assume "strip s = []"
  then have all: "\<forall>x\<in>set (dropWhile is_space s). is_space x"
    by (simp add: strip_def dropWhile_eq_Nil_conv)
  have "dropWhile is_space s = []"
  proof (rule ccontr)
    assume ne: "dropWhile is_space s \<noteq> []"
    then have "\<not> is_space (hd (dropWhile is_space s))" by (rule hd_dropWhile)
    moreover from ne have "hd (dropWhile is_space s) \<in> set (dropWhile is_space s)" by simp
    ultimately show False using all by blast
  qed
  then show "\<forall>c\<in>set s. is_space c" by (simp add: dropWhile_eq_Nil_conv)
next
  assume "\<forall>c\<in>set s. is_space c"
  then show "strip s = []" by (auto simp: strip_def dest: set_dropWhileD)
qed

lemma strip_decomp:
  "s = takeWhile is_space s @ strip s @ rev (takeWhile is_space (rev (dropWhile is_space s)))"
proof -
  let ?d = "dropWhile is_space s"
  have "rev ?d = takeWhile is_space (rev ?d) @ dropWhile is_space (rev ?d)"
    by simp
  then have "rev (rev ?d) = rev (takeWhile is_space (rev ?d) @ dropWhile is_space (rev ?d))"
    by (rule arg_cong)
  then have "?d = strip s @ rev (takeWhile is_space (rev ?d))"
    by (simp only: rev_rev_ident rev_append strip_def)
  moreover have "s = takeWhile is_space s @ ?d" by simp
  ultimately show ?thesis by simp
qed

lemma strip_ends:
  assumes "strip s \<noteq> []"
  shows "\<not> is_space (hd (strip s)) \<and> \<not> is_space (last (strip s))"
proof -
  let ?d = "dropWhile is_space s"
  let ?e = "dropWhile is_space (rev ?d)"
  from assms have e: "?e \<noteq> []" by (simp add: strip_def)
  then have "\<not> is_space (hd ?e)" by (rule hd_dropWhile)
  with e have l: "\<not> is_space (last (strip s))" by (simp add: strip_def last_rev)
  have d: "?d \<noteq> []"
  proof
    assume "?d = []"
    then have "?e = []" by (simp only: rev.simps dropWhile.simps)
    with e show False by simp
  qed
  then have hd: "\<not> is_space (hd ?d)" by (rule hd_dropWhile)
  have "?d = strip s @ rev (takeWhile is_space (rev ?d))"
    using strip_decomp [of s] by (metis append_eq_append_conv takeWhile_dropWhile_id same_append_eq)
  with assms have "hd ?d = hd (strip s)" by (metis hd_append2)
  with hd l show ?thesis by simp
qed

lemma strip_trims:
  "\<exists>before after. s = before @ strip s @ after \<and>
     (\<forall>c\<in>set before. is_space c) \<and> (\<forall>c\<in>set after. is_space c)"
proof -
  have "\<forall>c\<in>set (takeWhile is_space s). is_space c"
    by (auto dest: set_takeWhileD)
  moreover have "\<forall>c\<in>set (rev (takeWhile is_space (rev (dropWhile is_space s)))). is_space c"
    by (auto dest: set_takeWhileD)
  ultimately show ?thesis using strip_decomp [of s] by blast
qed

lemma replace_tokens:
  "py_replace (str ''grade_'') [] (str ''grade_1-5'') = str ''1-5''"
  "py_replace (str ''grade_'') [] (str ''grade_6-8'') = str ''6-8''"
  "py_replace (str ''grade_'') [] (str ''grade_9-12'') = str ''9-12''"
  by (simp_all add: str_def)

lemma grade_levels_eval:
  "GRADE_LEVELS (str ''1-5'') = Some (str ''elementary'')"
  "GRADE_LEVELS (str ''6-8'') = Some (str ''middle'')"
  "GRADE_LEVELS (str ''9-12'') = Some (str ''high'')"
  by (simp_all add: GRADE_LEVELS_def str_def)

lemma grade_levels_range:
  "GRADE_LEVELS token = Some label \<Longrightarrow>
     label = str ''elementary'' \<or> label = str ''middle'' \<or> label = str ''high''"
  by (auto simp: GRADE_LEVELS_def split: if_splits)

lemma sublist_homework_prompt:
  "sublist grade_level (homework_prompt question grade_level)"
  "sublist question (homework_prompt question grade_level)"
  unfolding homework_prompt_def
  by (metis sublist_appendI append.assoc)+

subsection \<open>Users without a stored grade\<close>

text \<open>
  Claim C1. For a user with no entry in the registry, handling a text message or a
  photo message sends exactly the configure-first reply, reaches neither the chat
  nor the vision inference service, raises nothing and leaves the registry as it
  was.
\<close>

theorem unconfigured_user_is_told_to_configure:
  assumes "grades user_id = None"
  shows "handle_text_question w grades user_id question =
           \<lparr>user_grades = grades, trace = [ReplyText configure_first], raised = None\<rparr> \<and>
         handle_photo w grades user_id photo =
           \<lparr>user_grades = grades, trace = [ReplyText configure_first], raised = None\<rparr> \<and>
         filter inference_call (trace (handle_text_question w grades user_id question)) = [] \<and>
         filter inference_call (trace (handle_photo w grades user_id photo)) = [] \<and>
         configure_first = str ''Please set your child's grade level first using /start''"
  using assms by (simp add: handle_text_question_def handle_photo_def configure_first_def)

theorem unconfigured_user_is_told_to_configure_witness:
  "Map.empty (7::int) = None \<and>
   handle_text_question (mock_world (str ''56'')) Map.empty 7 multiplication_question =
     \<lparr>user_grades = Map.empty, trace = [ReplyText configure_first], raised = None\<rparr> \<and>
   handle_photo (mock_world (str ''56'')) Map.empty 7 [small_photo, large_photo] =
     \<lparr>user_grades = Map.empty, trace = [ReplyText configure_first], raised = None\<rparr>"
  using unconfigured_user_is_told_to_configure
    [of Map.empty 7 "mock_world (str ''56'')" multiplication_question "[small_photo, large_photo]"]
  by simp

subsection \<open>Text questions of a configured user\<close>

lemma get_homework_help_calls:
  "fst (get_homework_help w question grade_level) =
     [ChatCall (homework_prompt question grade_level)]"
  by (simp add: get_homework_help_def Let_def)

lemma get_homework_help_answer:
  "snd (get_homework_help w question grade_level) =
     (case send_message w (homework_prompt question grade_level) of
        Raises \<Rightarrow> None
      | Returns response \<Rightarrow>
          (case response_text response of Raises \<Rightarrow> None | Returns t \<Rightarrow> Some (strip t)))"
  by (simp add: get_homework_help_def Let_def)

lemma handle_text_question_configured:
  assumes "grades user_id = Some grade_level"
  shows "handle_text_question w grades user_id question =
           \<lparr>user_grades = grades,
            trace = [ChatCall (homework_prompt question grade_level),
                     ReplyText (if truthy (snd (get_homework_help w question grade_level))
                                then the (snd (get_homework_help w question grade_level))
                                else text_apology)],
            raised = None\<rparr>"
proof -
  obtain calls answer where e: "get_homework_help w question grade_level = (calls, answer)"
    by (cases "get_homework_help w question grade_level")
  with get_homework_help_calls [of w question grade_level]
  have "calls = [ChatCall (homework_prompt question grade_level)]" by simp
  with e assms show ?thesis by (simp add: handle_text_question_def)
qed

text \<open>
  Claim C2, as amended. For a user with a stored grade label, handling a text
  message makes exactly one chat-inference call; its prompt contains the stored
  label and the message text; when the call returns a text that is not empty after
  trimming, the only reply is that trimmed text. With the label \<open>middle\<close>, the
  question of the scenario and the mocked answer \<open>56\<close> the reply is \<open>56\<close>.
\<close>

theorem text_question_makes_one_chat_call:
  assumes "grades user_id = Some grade_level"
  shows "(\<exists>reply. trace (handle_text_question w grades user_id question) =
            [ChatCall (homework_prompt question grade_level), ReplyText reply]) \<and>
         filter inference_call (trace (handle_text_question w grades user_id question)) =
            [ChatCall (homework_prompt question grade_level)] \<and>
         sublist grade_level (homework_prompt question grade_level) \<and>
         sublist question (homework_prompt question grade_level) \<and>
         (\<forall>t. send_message w (homework_prompt question grade_level) =
                Returns (Response (Returns t)) \<and> strip t \<noteq> [] \<longrightarrow>
              trace (handle_text_question w grades user_id question) =
                [ChatCall (homework_prompt question grade_level), ReplyText (strip t)])"
  using assms
  by (simp add: handle_text_question_configured get_homework_help_answer
      sublist_homework_prompt)

theorem text_question_makes_one_chat_call_witness:
  "middle_registry 1 = Some (str ''middle'') \<and>
   send_message (mock_world (str ''56'')) (homework_prompt multiplication_question (str ''middle'')) =
     Returns (Response (Returns (str ''56''))) \<and>
   strip (str ''56'') \<noteq> [] \<and>
   trace (handle_text_question (mock_world (str ''56'')) middle_registry 1 multiplication_question) =
     [ChatCall (homework_prompt multiplication_question (str ''middle'')), ReplyText (str ''56'')]"
proof -
  have g: "middle_registry 1 = Some (str ''middle'')"
    by (simp add: middle_registry_def)
  have s: "send_message (mock_world (str ''56''))
             (homework_prompt multiplication_question (str ''middle'')) =
           Returns (Response (Returns (str ''56'')))"
    by (simp add: mock_world_def always_returns_def)
  have t: "strip (str ''56'') = str ''56''"
    by (simp add: strip_def str_def is_space_def)
  have n: "str ''56'' \<noteq> []" by (simp add: str_def)
  from text_question_makes_one_chat_call
    [of middle_registry 1 "str ''middle''" "mock_world (str ''56'')" multiplication_question]
    g s t n show ?thesis by simp
qed

text \<open>
  Claim C2 as it is written promises the trimmed text whenever the call returns
  text. A returned text of one blank is trimmed to the empty string, which the test
  \<^verbatim>\<open>if answer:\<close> rejects: the reply is the apology.
\<close>

theorem whitespace_answer_is_not_relayed:
  "middle_registry 1 = Some (str ''middle'') \<and>
   send_message (mock_world [32]) (homework_prompt multiplication_question (str ''middle'')) =
     Returns (Response (Returns [32])) \<and>
   trace (handle_text_question (mock_world [32]) middle_registry 1 multiplication_question) =
     [ChatCall (homework_prompt multiplication_question (str ''middle'')),
      ReplyText text_apology] \<and>
   text_apology \<noteq> strip [32]"
  by (simp add: middle_registry_def mock_world_def always_returns_def
      handle_text_question_configured get_homework_help_answer
      strip_def is_space_def text_apology_def str_def)

subsection \<open>Grade selection\<close>

lemma handle_grade_selection_token:
  assumes "GRADE_LEVELS (py_replace (str ''grade_'') [] data) = Some label"
  shows "handle_grade_selection grades user_id data =
           \<lparr>user_grades = grades(user_id \<mapsto> label),
            trace = [AnswerCallback,
                     EditMessageText (confirmation_message (py_replace (str ''grade_'') [] data))],
            raised = None\<rparr>"
  using assms by (simp add: handle_grade_selection_def Let_def)

lemma handle_grade_selection_unknown:
  assumes "GRADE_LEVELS (py_replace (str ''grade_'') [] data) = None"
  shows "handle_grade_selection grades user_id data =
           \<lparr>user_grades = grades, trace = [AnswerCallback], raised = Some KeyError\<rparr>"
  using assms by (simp add: handle_grade_selection_def Let_def)

lemma replace_grade_prefix:
  assumes "(token, label) \<in> set [(str ''1-5'', str ''elementary''),
             (str ''6-8'', str ''middle''), (str ''9-12'', str ''high'')]"
  shows "py_replace (str ''grade_'') [] (str ''grade_'' @ token) = token \<and>
         GRADE_LEVELS token = Some label"
proof -
  have a: "str ''grade_'' @ str ''1-5'' = str ''grade_1-5''"
    and b: "str ''grade_'' @ str ''6-8'' = str ''grade_6-8''"
    and c: "str ''grade_'' @ str ''9-12'' = str ''grade_9-12''"
    by (simp_all add: str_def)
  from assms consider "token = str ''1-5'' \<and> label = str ''elementary''"
    | "token = str ''6-8'' \<and> label = str ''middle''"
    | "token = str ''9-12'' \<and> label = str ''high''"
    by auto
  then show ?thesis
  proof cases
    case 1 then show ?thesis by (simp only: a replace_tokens grade_levels_eval)
  next
    case 2 then show ?thesis by (simp only: b replace_tokens grade_levels_eval)
  next
    case 3 then show ?thesis by (simp only: c replace_tokens grade_levels_eval)
  qed
qed

text \<open>
  Claim C3. For each of the three grade tokens, handling the callback
  \<^verbatim>\<open>grade_\<close> followed by the token stores the corresponding label for the user,
  whatever was stored before, and answers with the confirmation message for the
  token. Handling the same callback again gives the same result: the same registry
  and the same confirmation.
\<close>

theorem grade_selection_stores_label:
  assumes "(token, label) \<in> set [(str ''1-5'', str ''elementary''),
             (str ''6-8'', str ''middle''), (str ''9-12'', str ''high'')]"
  shows "handle_grade_selection grades user_id (str ''grade_'' @ token) =
           \<lparr>user_grades = grades(user_id \<mapsto> label),
            trace = [AnswerCallback, EditMessageText (confirmation_message token)],
            raised = None\<rparr> \<and>
         handle_grade_selection
           (user_grades (handle_grade_selection grades user_id (str ''grade_'' @ token)))
           user_id (str ''grade_'' @ token) =
           handle_grade_selection grades user_id (str ''grade_'' @ token) \<and>
         confirmation_message token =
           str ''Grade level set to: '' @ token @ [10, 10] @
           str ''You can now send homework questions or photos to get direct answers.'' @ [10] @
           str ''Use /change_grade to change the grade level.''"
proof -
  from replace_grade_prefix [OF assms]
  have "GRADE_LEVELS (py_replace (str ''grade_'') [] (str ''grade_'' @ token)) = Some label"
    and t: "py_replace (str ''grade_'') [] (str ''grade_'' @ token) = token"
    by simp_all
  then have "\<And>g. handle_grade_selection g user_id (str ''grade_'' @ token) =
           \<lparr>user_grades = g(user_id \<mapsto> label),
            trace = [AnswerCallback, EditMessageText (confirmation_message token)],
            raised = None\<rparr>"
    using handle_grade_selection_token [of "str ''grade_'' @ token" label] by simp
  then show ?thesis by (simp add: confirmation_message_def)
qed

theorem grade_selection_stores_label_witness:
  "(str ''6-8'', str ''middle'') \<in> set [(str ''1-5'', str ''elementary''),
      (str ''6-8'', str ''middle''), (str ''9-12'', str ''high'')] \<and>
   handle_grade_selection [1 \<mapsto> str ''high''] 1 (str ''grade_6-8'') =
     \<lparr>user_grades = [1 \<mapsto> str ''middle''],
      trace = [AnswerCallback, EditMessageText (confirmation_message (str ''6-8''))],
      raised = None\<rparr> \<and>
   handle_grade_selection [1 \<mapsto> str ''middle''] 1 (str ''grade_6-8'') =
     \<lparr>user_grades = [1 \<mapsto> str ''middle''],
      trace = [AnswerCallback, EditMessageText (confirmation_message (str ''6-8''))],
      raised = None\<rparr>"
proof -
  have m: "(str ''6-8'', str ''middle'') \<in> set [(str ''1-5'', str ''elementary''),
      (str ''6-8'', str ''middle''), (str ''9-12'', str ''high'')]"
    by simp
  have d: "str ''grade_'' @ str ''6-8'' = str ''grade_6-8''"
    by (simp add: str_def)
  from grade_selection_stores_label [OF m, of "[1 \<mapsto> str ''high'']" 1]
    grade_selection_stores_label [OF m, of "[1 \<mapsto> str ''middle'']" 1]
  show ?thesis using m unfolding d by simp
qed

subsection \<open>The registry invariant\<close>

lemma handle_photo_keeps_registry:
  "user_grades (handle_photo w grades user_id photo) = grades"
  by (simp add: handle_photo_def Let_def split: option.split outcome.split prod.split)

lemma handle_text_question_keeps_registry:
  "user_grades (handle_text_question w grades user_id question) = grades"
  by (simp add: handle_text_question_def split: option.split prod.split)

lemma handle_grade_selection_stores:
  "user_grades (handle_grade_selection grades user_id data) = grades \<or>
   (\<exists>label. GRADE_LEVELS (py_replace (str ''grade_'') [] data) = Some label \<and>
      user_grades (handle_grade_selection grades user_id data) = grades(user_id \<mapsto> label))"
  by (simp add: handle_grade_selection_def Let_def split: option.split)

lemma handle_grade_selection_entry:
  assumes "user_grades (handle_grade_selection grades user_id data) u = Some label"
  shows "grades u = Some label \<or>
         label = str ''elementary'' \<or> label = str ''middle'' \<or> label = str ''high''"
proof -
  from handle_grade_selection_stores [of grades user_id data]
  show ?thesis
  proof
    assume "user_grades (handle_grade_selection grades user_id data) = grades"
    with assms show ?thesis by simp
  next
    assume "\<exists>l. GRADE_LEVELS (py_replace (str ''grade_'') [] data) = Some l \<and>
      user_grades (handle_grade_selection grades user_id data) = grades(user_id \<mapsto> l)"
    then obtain l where l: "GRADE_LEVELS (py_replace (str ''grade_'') [] data) = Some l"
      and u: "user_grades (handle_grade_selection grades user_id data) = grades(user_id \<mapsto> l)"
      by blast
    from assms grade_levels_range [OF l] show ?thesis
      unfolding u by (auto split: if_splits)
  qed
qed

lemma dispatch_entry:
  assumes "user_grades (dispatch w grades u) v = Some label"
  shows "grades v = Some label \<or>
         label = str ''elementary'' \<or> label = str ''middle'' \<or> label = str ''high''"
proof (cases u)
  case (CommandUpdate user_id name)
  with assms show ?thesis
    by (simp add: start_def change_grade_def unhandled_def split: if_splits)
next
  case (CallbackUpdate user_id data)
  with assms handle_grade_selection_entry [of grades user_id data v label] show ?thesis
    by (simp add: unhandled_def split: if_splits)
next
  case (PhotoUpdate user_id photo)
  with assms show ?thesis by (simp add: handle_photo_keeps_registry)
next
  case (TextUpdate user_id question)
  with assms show ?thesis by (simp add: handle_text_question_keeps_registry)
qed

lemma reachable_entry:
  assumes "reachable grades"
  shows "\<forall>v label. grades v = Some label \<longrightarrow>
           label = str ''elementary'' \<or> label = str ''middle'' \<or> label = str ''high''"
  using assms
proof (induction rule: reachable.induct)
  case initial
  show ?case by simp
next
  case (handled grades w u)
  show ?case
  proof (intro allI impI)
    fix v label
    assume "user_grades (dispatch w grades u) v = Some label"
    from dispatch_entry [OF this] handled.IH
    show "label = str ''elementary'' \<or> label = str ''middle'' \<or> label = str ''high''"
      by blast
  qed
qed

text \<open>
  Claim C4. In every registry the program can reach, every stored grade is one of
  the labels \<open>elementary\<close>, \<open>middle\<close> and \<open>high\<close>. Handling an update
  stores nothing else: an entry of the registry after the update was there before
  or is one of the three labels. The handlers of commands, text messages and photo
  messages return the registry they were given; only the grade-selection handler
  changes it.
\<close>

theorem stored_grades_are_labels:
  "(reachable grades \<longrightarrow>
      (\<forall>v label. grades v = Some label \<longrightarrow>
         label = str ''elementary'' \<or> label = str ''middle'' \<or> label = str ''high'')) \<and>
   (\<forall>v label. user_grades (dispatch w grades u) v = Some label \<longrightarrow>
      grades v = Some label \<or>
      label = str ''elementary'' \<or> label = str ''middle'' \<or> label = str ''high'') \<and>
   user_grades (start grades) = grades \<and>
   user_grades (change_grade grades) = grades \<and>
   user_grades (handle_text_question w grades user_id question) = grades \<and>
   user_grades (handle_photo w grades user_id photo) = grades \<and>
   user_grades (dispatch w grades (CommandUpdate user_id name)) = grades \<and>
   user_grades (dispatch w grades (TextUpdate user_id question)) = grades \<and>
   user_grades (dispatch w grades (PhotoUpdate user_id photo)) = grades"
proof -
  have "user_grades (dispatch w grades (CommandUpdate user_id name)) = grades"
    by (simp add: start_def change_grade_def unhandled_def)
  with reachable_entry [of grades] dispatch_entry [of w grades u] show ?thesis
    by (simp add: start_def change_grade_def handle_photo_keeps_registry
        handle_text_question_keeps_registry)
qed

theorem stored_grades_are_labels_witness:
  "reachable (user_grades (dispatch failing_world Map.empty (CallbackUpdate 7 (str ''grade_6-8'')))) \<and>
   user_grades (dispatch failing_world Map.empty (CallbackUpdate 7 (str ''grade_6-8''))) 7 =
     Some (str ''middle'') \<and>
   (str ''middle'' = str ''elementary'' \<or> str ''middle'' = str ''middle'' \<or>
    str ''middle'' = str ''high'')"
proof -
  let ?g = "user_grades (dispatch failing_world Map.empty (CallbackUpdate 7 (str ''grade_6-8'')))"
  have r: "reachable ?g"
    by (rule reachable.handled) (rule reachable.initial)
  have p: "grade_pattern (str ''grade_6-8'')"
    by (simp add: grade_pattern_def str_def)
  have e: "?g 7 = Some (str ''middle'')"
    using p by (simp add: handle_grade_selection_def replace_tokens grade_levels_eval)
  from stored_grades_are_labels [of ?g] r e show ?thesis by blast
qed

subsection \<open>Start-up\<close>

lemma environment_names_differ:
  "str ''GEMINI_API_KEY'' \<noteq> str ''GROQ_API_KEY''"
  "str ''TELEGRAM_BOT_TOKEN'' \<noteq> str ''GROQ_API_KEY''"
  "str ''TELEGRAM_BOT_TOKEN'' \<noteq> str ''GEMINI_API_KEY''"
  "str ''GROQ_API_KEY'' \<noteq> str ''GEMINI_API_KEY''"
  "str ''GROQ_API_KEY'' \<noteq> str ''TELEGRAM_BOT_TOKEN''"
  "str ''GEMINI_API_KEY'' \<noteq> str ''TELEGRAM_BOT_TOKEN''"
  by (simp_all add: str_def)

text \<open>
  Claim C5, as amended. Start-up fails when the bot token is missing or empty. It
  also fails, with \<^verbatim>\<open>KeyError\<close>, when \<^verbatim>\<open>GEMINI_API_KEY\<close> is missing, whatever
  the other variables are. \<^verbatim>\<open>GROQ_API_KEY\<close> is not validated: with the other two
  present start-up succeeds without it, and removing it never changes whether
  start-up succeeds.
\<close>

theorem startup_validates_token_and_gemini_key:
  "(\<not> truthy (env (str ''TELEGRAM_BOT_TOKEN'')) \<longrightarrow> isl (startup env)) \<and>
   (env (str ''GEMINI_API_KEY'') = None \<longrightarrow> startup env = Inl KeyError) \<and>
   (env (str ''GEMINI_API_KEY'') \<noteq> None \<and> \<not> truthy (env (str ''TELEGRAM_BOT_TOKEN'')) \<longrightarrow>
      startup env = Inl ValueError) \<and>
   (env (str ''GEMINI_API_KEY'') \<noteq> None \<and> truthy (env (str ''TELEGRAM_BOT_TOKEN'')) \<longrightarrow>
      startup (env(str ''GROQ_API_KEY'' := None)) =
        Inr \<lparr>gemini_api_key = the (env (str ''GEMINI_API_KEY'')), GROQ_API_KEY = None,
             TELEGRAM_BOT_TOKEN = the (env (str ''TELEGRAM_BOT_TOKEN''))\<rparr>) \<and>
   isl (startup (env(str ''GROQ_API_KEY'' := None))) = isl (startup env)"
  using environment_names_differ
  by (auto simp: startup_def Let_def split: option.splits)

theorem startup_validates_token_and_gemini_key_witness:
  "environment_without_groq (str ''GEMINI_API_KEY'') \<noteq> None \<and>
   truthy (environment_without_groq (str ''TELEGRAM_BOT_TOKEN'')) \<and>
   environment_without_groq (str ''GROQ_API_KEY'') = None \<and>
   startup environment_without_groq =
     Inr \<lparr>gemini_api_key = str ''key'', GROQ_API_KEY = None,
          TELEGRAM_BOT_TOKEN = str ''123:abc''\<rparr> \<and>
   \<not> truthy (Map.empty (str ''TELEGRAM_BOT_TOKEN'')) \<and> isl (startup Map.empty)"
proof -
  have a: "environment_without_groq (str ''GEMINI_API_KEY'') = Some (str ''key'')"
    and b: "environment_without_groq (str ''TELEGRAM_BOT_TOKEN'') = Some (str ''123:abc'')"
    and c: "environment_without_groq (str ''GROQ_API_KEY'') = None"
    using environment_names_differ
    by (simp_all add: environment_without_groq_def)
  have d: "str ''123:abc'' \<noteq> []" by (simp add: str_def)
  have e: "environment_without_groq(str ''GROQ_API_KEY'' := None) = environment_without_groq"
    using c by (rule fun_upd_idem)
  from startup_validates_token_and_gemini_key [of environment_without_groq]
    startup_validates_token_and_gemini_key [of Map.empty]
    a b c d show ?thesis unfolding e by simp
qed

text \<open>
  Claim C5 as it is written says that a missing chat-inference key is not validated
  at start-up. With the bot token and \<^verbatim>\<open>GROQ_API_KEY\<close> set and
  \<^verbatim>\<open>GEMINI_API_KEY\<close> missing, start-up raises \<^verbatim>\<open>KeyError\<close>.
\<close>

theorem missing_gemini_key_stops_startup:
  "environment_without_gemini (str ''GEMINI_API_KEY'') = None \<and>
   environment_without_gemini (str ''TELEGRAM_BOT_TOKEN'') = Some (str ''123:abc'') \<and>
   startup environment_without_gemini = Inl KeyError"
  by (simp add: environment_without_gemini_def startup_def environment_names_differ)

subsection \<open>The answer service\<close>

text \<open>
  Claim C7, as amended. \<^verbatim>\<open>get_homework_help\<close> makes one chat call. When the call
  returns a text, the result is that text without its leading and trailing white
  space, also when nothing is left: an empty or blank response gives the empty
  string. The result is absent exactly when the call raises or reading the text of
  the response raises.
\<close>

theorem get_homework_help_trims_or_signals_absence:
  "fst (get_homework_help w question grade_level) =
     [ChatCall (homework_prompt question grade_level)] \<and>
   (\<forall>t. send_message w (homework_prompt question grade_level) = Returns (Response (Returns t)) \<longrightarrow>
      snd (get_homework_help w question grade_level) = Some (strip t) \<and>
      (\<exists>before after. t = before @ strip t @ after \<and>
         (\<forall>c\<in>set before. is_space c) \<and> (\<forall>c\<in>set after. is_space c)) \<and>
      (strip t \<noteq> [] \<longrightarrow> \<not> is_space (hd (strip t)) \<and> \<not> is_space (last (strip t)))) \<and>
   (snd (get_homework_help w question grade_level) = None \<longleftrightarrow>
      send_message w (homework_prompt question grade_level) = Raises \<or>
      send_message w (homework_prompt question grade_level) = Returns (Response Raises))"
proof (intro conjI allI impI)
  show "fst (get_homework_help w question grade_level) =
     [ChatCall (homework_prompt question grade_level)]"
    by (rule get_homework_help_calls)
next
  fix t
  assume "send_message w (homework_prompt question grade_level) = Returns (Response (Returns t))"
  then show "snd (get_homework_help w question grade_level) = Some (strip t)"
    by (simp add: get_homework_help_answer)
next
  fix t
  show "\<exists>before after. t = before @ strip t @ after \<and>
         (\<forall>c\<in>set before. is_space c) \<and> (\<forall>c\<in>set after. is_space c)"
    by (rule strip_trims)
next
  fix t
  assume "strip t \<noteq> []"
  then show "\<not> is_space (hd (strip t))" "\<not> is_space (last (strip t))"
    using strip_ends [of t] by simp_all
next
  show "snd (get_homework_help w question grade_level) = None \<longleftrightarrow>
      send_message w (homework_prompt question grade_level) = Raises \<or>
      send_message w (homework_prompt question grade_level) = Returns (Response Raises)"
  proof (cases "send_message w (homework_prompt question grade_level)")
    case Raises
    then show ?thesis by (simp add: get_homework_help_answer)
  next
    case (Returns r)
    then show ?thesis
      by (cases r) (simp add: get_homework_help_answer split: outcome.split)
  qed
qed

theorem get_homework_help_trims_or_signals_absence_witness:
  "send_message (mock_world ([32, 10] @ str ''56'' @ [9]))
     (homework_prompt multiplication_question (str ''middle'')) =
     Returns (Response (Returns ([32, 10] @ str ''56'' @ [9]))) \<and>
   strip ([32, 10] @ str ''56'' @ [9]) = str ''56'' \<and>
   snd (get_homework_help (mock_world ([32, 10] @ str ''56'' @ [9]))
     multiplication_question (str ''middle'')) = Some (str ''56'') \<and>
   send_message failing_world (homework_prompt multiplication_question (str ''middle'')) = Raises \<and>
   snd (get_homework_help failing_world multiplication_question (str ''middle'')) = None"
proof -
  let ?t = "[32, 10] @ str ''56'' @ [9]"
  let ?p = "homework_prompt multiplication_question (str ''middle'')"
  have s: "send_message (mock_world ?t) ?p = Returns (Response (Returns ?t))"
    by (simp add: mock_world_def always_returns_def)
  have t: "strip ?t = str ''56''"
    by (simp add: strip_def str_def is_space_def)
  have f: "send_message failing_world ?p = Raises"
    by (simp add: failing_world_def always_raises_def)
  from get_homework_help_trims_or_signals_absence
         [of "mock_world ?t" multiplication_question "str ''middle''"]
       get_homework_help_trims_or_signals_absence
         [of failing_world multiplication_question "str ''middle''"]
       s t f
  show ?thesis by simp
qed

text \<open>
  Claim C7 as it is written counts an empty response among the cases that signal
  absence. For a response with the empty text the service returns the empty
  string.
\<close>

theorem empty_response_is_not_absence:
  "send_message (mock_world []) (homework_prompt multiplication_question (str ''middle'')) =
     Returns (Response (Returns [])) \<and>
   snd (get_homework_help (mock_world []) multiplication_question (str ''middle'')) = Some [] \<and>
   snd (get_homework_help (mock_world []) multiplication_question (str ''middle'')) \<noteq> None"
  by (simp add: get_homework_help_answer mock_world_def always_returns_def strip_def)

subsection \<open>The reply to a text question\<close>

lemma text_apology_nonempty: "text_apology \<noteq> []"
  by (simp add: text_apology_def str_def)

text \<open>
  Claim C10. For a configured user the text handler sends exactly one reply, and
  the reply is not empty: it is the text apology when \<^verbatim>\<open>get_homework_help\<close>
  returns absence or the empty string, and the returned answer otherwise. A
  response of white space only is trimmed to the empty string, not to absence,
  and is answered with the apology.
\<close>

theorem apology_replaces_missing_or_empty_answer:
  assumes "grades user_id = Some grade_level"
  shows "trace (handle_text_question w grades user_id question) =
           [ChatCall (homework_prompt question grade_level),
            ReplyText
              (if snd (get_homework_help w question grade_level) = None \<or>
                  snd (get_homework_help w question grade_level) = Some []
               then text_apology
               else the (snd (get_homework_help w question grade_level)))] \<and>
         (\<forall>reply. ReplyText reply \<in> set (trace (handle_text_question w grades user_id question))
            \<longrightarrow> reply \<noteq> []) \<and>
         length (reply_texts (trace (handle_text_question w grades user_id question))) = 1 \<and>
         (\<forall>t. send_message w (homework_prompt question grade_level) =
                Returns (Response (Returns t)) \<and> (\<forall>c\<in>set t. is_space c) \<longrightarrow>
              snd (get_homework_help w question grade_level) = Some [] \<and>
              trace (handle_text_question w grades user_id question) =
                [ChatCall (homework_prompt question grade_level), ReplyText text_apology]) \<and>
         text_apology = str ''Sorry, I couldn't process that question. Please try again.''"
proof -
  let ?a = "snd (get_homework_help w question grade_level)"
  have t: "truthy ?a \<longleftrightarrow> \<not> (?a = None \<or> ?a = Some [])"
    by (cases ?a) simp_all
  have tr: "trace (handle_text_question w grades user_id question) =
           [ChatCall (homework_prompt question grade_level),
            ReplyText (if ?a = None \<or> ?a = Some [] then text_apology else the ?a)]"
    using assms by (simp add: handle_text_question_configured t)
  have ne: "(if ?a = None \<or> ?a = Some [] then text_apology else the ?a) \<noteq> []"
    using text_apology_nonempty by (cases ?a) auto
  have ws: "\<forall>t. send_message w (homework_prompt question grade_level) =
                Returns (Response (Returns t)) \<and> (\<forall>c\<in>set t. is_space c) \<longrightarrow>
              ?a = Some [] \<and>
              trace (handle_text_question w grades user_id question) =
                [ChatCall (homework_prompt question grade_level), ReplyText text_apology]"
  proof (intro allI impI)
    fix t
    assume h: "send_message w (homework_prompt question grade_level) =
                Returns (Response (Returns t)) \<and> (\<forall>c\<in>set t. is_space c)"
    then have "strip t = []" by (simp add: strip_empty_iff)
    with h have "?a = Some []" by (simp add: get_homework_help_answer)
    with tr show "?a = Some [] \<and>
              trace (handle_text_question w grades user_id question) =
                [ChatCall (homework_prompt question grade_level), ReplyText text_apology]"
      by simp
  qed
  from ne have r: "\<forall>reply. ReplyText reply \<in> set (trace (handle_text_question w grades user_id question))
            \<longrightarrow> reply \<noteq> []"
    unfolding tr by auto
  have l: "length (reply_texts (trace (handle_text_question w grades user_id question))) = 1"
    unfolding tr by simp
  from tr r l ws show ?thesis by (simp only: text_apology_def simp_thms)
qed

theorem apology_replaces_missing_or_empty_answer_witness:
  "middle_registry 1 = Some (str ''middle'') \<and>
   send_message (mock_world [32, 9, 10]) (homework_prompt multiplication_question (str ''middle'')) =
     Returns (Response (Returns [32, 9, 10])) \<and>
   is_space 32 \<and> is_space 9 \<and> is_space 10 \<and>
   snd (get_homework_help (mock_world [32, 9, 10]) multiplication_question (str ''middle'')) = Some [] \<and>
   trace (handle_text_question (mock_world [32, 9, 10]) middle_registry 1 multiplication_question) =
     [ChatCall (homework_prompt multiplication_question (str ''middle'')), ReplyText text_apology]"
proof -
  have g: "middle_registry 1 = Some (str ''middle'')"
    by (simp add: middle_registry_def)
  have s: "send_message (mock_world [32, 9, 10])
             (homework_prompt multiplication_question (str ''middle'')) =
           Returns (Response (Returns [32, 9, 10]))"
    by (simp add: mock_world_def always_returns_def)
  have w: "\<forall>c\<in>set [32, 9, 10]. is_space c"
    by (simp add: is_space_def)
  from apology_replaces_missing_or_empty_answer
    [of middle_registry 1 "str ''middle''" "mock_world [32, 9, 10]" multiplication_question]
    g s w show ?thesis by (simp add: is_space_def)
qed

subsection \<open>Photo messages of a configured user\<close>

lemma analyze_homework_image_decode_error:
  assumes "image_open w image_bytes = Raises"
  shows "analyze_homework_image w image_bytes grade_level = ([ImageOpen image_bytes], None)"
  using assms by (simp add: analyze_homework_image_def)

lemma analyze_homework_image_decoded:
  assumes "image_open w image_bytes = Returns img"
  shows "analyze_homework_image w image_bytes grade_level =
           ([ImageOpen image_bytes, VisionCall (image_prompt grade_level) img],
            case generate_content w (image_prompt grade_level) img of
              Raises \<Rightarrow> None
            | Returns response \<Rightarrow>
                (case response_text response of
                   Raises \<Rightarrow> None
                 | Returns t \<Rightarrow> if t \<noteq> [] then Some (strip t) else None))"
  using assms by (simp add: analyze_homework_image_def Let_def)

lemma handle_photo_no_file:
  assumes "grades user_id = Some grade_level" and "photo \<noteq> []"
    and "get_file w (file_id (last photo)) = Raises"
  shows "handle_photo w grades user_id photo =
           \<lparr>user_grades = grades,
            trace = [ReplyText analyzing_message, GetFile (file_id (last photo)),
                     ReplyText photo_error_apology],
            raised = None\<rparr>"
  using assms by (simp add: handle_photo_def Let_def)

lemma handle_photo_no_download:
  assumes "grades user_id = Some grade_level" and "photo \<noteq> []"
    and "get_file w (file_id (last photo)) = Returns photo_file"
    and "download_as_bytearray w photo_file = Raises"
  shows "handle_photo w grades user_id photo =
           \<lparr>user_grades = grades,
            trace = [ReplyText analyzing_message, GetFile (file_id (last photo)),
                     Download photo_file, ReplyText photo_error_apology],
            raised = None\<rparr>"
  using assms by (simp add: handle_photo_def Let_def)

lemma handle_photo_analyzed:
  assumes "grades user_id = Some grade_level" and "photo \<noteq> []"
    and "get_file w (file_id (last photo)) = Returns photo_file"
    and "download_as_bytearray w photo_file = Returns photo_bytes"
  shows "handle_photo w grades user_id photo =
           \<lparr>user_grades = grades,
            trace = [ReplyText analyzing_message, GetFile (file_id (last photo)),
                     Download photo_file] @
                    fst (analyze_homework_image w photo_bytes grade_level) @
                    [ReplyText
                       (if truthy (snd (analyze_homework_image w photo_bytes grade_level))
                        then the (snd (analyze_homework_image w photo_bytes grade_level))
                        else image_apology)],
            raised = None\<rparr>"
  using assms by (simp add: handle_photo_def Let_def split: prod.split)

lemma handle_photo_never_raises:
  "raised (handle_photo w grades user_id photo) = None"
  by (simp add: handle_photo_def Let_def split: option.split outcome.split prod.split)

lemma handle_text_question_never_raises:
  "raised (handle_text_question w grades user_id question) = None"
  by (simp add: handle_text_question_def split: option.split prod.split)

lemma handle_photo_acknowledges:
  assumes "grades user_id = Some grade_level" and "photo \<noteq> []"
  shows "take 2 (trace (handle_photo w grades user_id photo)) =
           [ReplyText analyzing_message, GetFile (file_id (last photo))]"
  using assms by (simp add: handle_photo_def Let_def split: outcome.split prod.split)

text \<open>
  Claim C8. For a user with a stored grade label and a photo message, the photo
  handler first sends the acknowledgment, then asks the transport for the file of
  the last element of the photo list and downloads it, then hands the bytes and
  the stored label to \<^verbatim>\<open>analyze_homework_image\<close>, whose prompt contains the
  label, and replies with the returned text when there is one and with the image
  apology otherwise. When the file cannot be fetched or downloaded the reply is the
  photo-error apology. The registry is unchanged and nothing is raised.
\<close>

theorem photo_of_configured_user:
  assumes "grades user_id = Some grade_level" and "photo \<noteq> []"
  shows "take 2 (trace (handle_photo w grades user_id photo)) =
           [ReplyText analyzing_message, GetFile (file_id (last photo))] \<and>
         (get_file w (file_id (last photo)) = Raises \<longrightarrow>
            trace (handle_photo w grades user_id photo) =
              [ReplyText analyzing_message, GetFile (file_id (last photo)),
               ReplyText photo_error_apology]) \<and>
         (\<forall>photo_file.
            get_file w (file_id (last photo)) = Returns photo_file \<and>
            download_as_bytearray w photo_file = Raises \<longrightarrow>
            trace (handle_photo w grades user_id photo) =
              [ReplyText analyzing_message, GetFile (file_id (last photo)),
               Download photo_file, ReplyText photo_error_apology]) \<and>
         (\<forall>photo_file photo_bytes.
            get_file w (file_id (last photo)) = Returns photo_file \<and>
            download_as_bytearray w photo_file = Returns photo_bytes \<longrightarrow>
            trace (handle_photo w grades user_id photo) =
              [ReplyText analyzing_message, GetFile (file_id (last photo)),
               Download photo_file] @
              fst (analyze_homework_image w photo_bytes grade_level) @
              [ReplyText
                 (if truthy (snd (analyze_homework_image w photo_bytes grade_level))
                  then the (snd (analyze_homework_image w photo_bytes grade_level))
                  else image_apology)] \<and>
            hd (fst (analyze_homework_image w photo_bytes grade_level)) = ImageOpen photo_bytes \<and>
            (\<forall>img. image_open w photo_bytes = Returns img \<longrightarrow>
               fst (analyze_homework_image w photo_bytes grade_level) =
                 [ImageOpen photo_bytes, VisionCall (image_prompt grade_level) img] \<and>
               sublist grade_level (image_prompt grade_level))) \<and>
         user_grades (handle_photo w grades user_id photo) = grades \<and>
         raised (handle_photo w grades user_id photo) = None \<and>
         analyzing_message = str ''Analyzing homework...''"
proof -
  have s: "sublist grade_level (image_prompt grade_level)"
    unfolding image_prompt_def by (metis sublist_appendI)
  have h: "hd (fst (analyze_homework_image w b grade_level)) = ImageOpen b" for b
    by (simp add: analyze_homework_image_def Let_def split: outcome.split)
  from assms s h show ?thesis
    by (simp add: handle_photo_acknowledges handle_photo_no_file handle_photo_no_download
        handle_photo_analyzed handle_photo_never_raises handle_photo_keeps_registry
        analyze_homework_image_decoded analyzing_message_def)
qed

theorem photo_of_configured_user_witness:
  "middle_registry 1 = Some (str ''middle'') \<and> [small_photo, large_photo] \<noteq> [] \<and>
   get_file (mock_world (str ''56'')) (file_id (last [small_photo, large_photo])) = Returns 0 \<and>
   download_as_bytearray (mock_world (str ''56'')) 0 = Returns [255, 216, 255] \<and>
   image_open (mock_world (str ''56'')) [255, 216, 255] = Returns 0 \<and>
   trace (handle_photo (mock_world (str ''56'')) middle_registry 1 [small_photo, large_photo]) =
     [ReplyText analyzing_message, GetFile (str ''large''), Download 0,
      ImageOpen [255, 216, 255], VisionCall (image_prompt (str ''middle'')) 0,
      ReplyText (str ''56'')]"
proof -
  let ?w = "mock_world (str ''56'')"
  have g: "middle_registry 1 = Some (str ''middle'')"
    by (simp add: middle_registry_def)
  have f: "get_file ?w (file_id (last [small_photo, large_photo])) = Returns 0"
    and d: "download_as_bytearray ?w 0 = Returns [255, 216, 255]"
    and i: "image_open ?w [255, 216, 255] = Returns 0"
    by (simp_all add: mock_world_def always_returns_def)
  have c: "generate_content ?w (image_prompt (str ''middle'')) 0 =
             Returns (Response (Returns (str ''56'')))"
    by (simp add: mock_world_def always_returns2_def)
  have l: "file_id (last [small_photo, large_photo]) = str ''large''"
    by (simp add: large_photo_def)
  have t: "strip (str ''56'') = str ''56''" "str ''56'' \<noteq> []"
    by (simp_all add: strip_def str_def is_space_def)
  have a: "snd (analyze_homework_image ?w [255, 216, 255] (str ''middle'')) = Some (str ''56'')"
    using t c by (simp add: analyze_homework_image_decoded [OF i])
  from photo_of_configured_user [of middle_registry 1 "str ''middle''" "[small_photo, large_photo]" ?w]
    g f d i a t l
  show ?thesis by simp
qed

subsection \<open>Failures and apologies\<close>

lemma apologies_differ:
  "text_apology \<noteq> image_apology"
  "text_apology \<noteq> photo_error_apology"
  "image_apology \<noteq> photo_error_apology"
  "photo_error_apology \<noteq> text_apology"
  "photo_error_apology \<noteq> image_apology"
  by (simp_all add: text_apology_def image_apology_def photo_error_apology_def str_def)

lemma analyze_homework_image_failure:
  assumes "image_open w photo_bytes = Raises \<or>
           (\<exists>img. image_open w photo_bytes = Returns img \<and>
              (generate_content w (image_prompt grade_level) img = Raises \<or>
               generate_content w (image_prompt grade_level) img = Returns (Response Raises) \<or>
               (\<exists>t. generate_content w (image_prompt grade_level) img =
                      Returns (Response (Returns t)) \<and> strip t = [])))"
  shows "\<not> truthy (snd (analyze_homework_image w photo_bytes grade_level))"
  using assms
  by (auto simp: analyze_homework_image_decode_error analyze_homework_image_decoded
      split: if_splits)

text \<open>
  Claim C6, as amended. For a configured user, a failure of the chat inference
  (the call raises, reading the text raises, or the text is empty or blank) is
  answered with the text apology. A failure of the image service (decoding
  raises, the call raises, reading the text raises, or the text is empty or
  blank) is turned into an absent or empty result inside the service and answered
  with the image apology. A failure to fetch or download the photo is not turned
  into an absent value: it reaches the photo handler, which catches it and answers
  with a third fixed string. The three strings differ, and neither handler raises.
\<close>

theorem failures_become_fixed_apologies:
  assumes "grades user_id = Some grade_level"
  shows "(send_message w (homework_prompt question grade_level) = Raises \<or>
          send_message w (homework_prompt question grade_level) = Returns (Response Raises) \<or>
          (\<exists>t. send_message w (homework_prompt question grade_level) =
                 Returns (Response (Returns t)) \<and> strip t = []) \<longrightarrow>
          reply_texts (trace (handle_text_question w grades user_id question)) = [text_apology]) \<and>
         (\<forall>photo_file photo_bytes.
            photo \<noteq> [] \<and> get_file w (file_id (last photo)) = Returns photo_file \<and>
            download_as_bytearray w photo_file = Returns photo_bytes \<and>
            (image_open w photo_bytes = Raises \<or>
             (\<exists>img. image_open w photo_bytes = Returns img \<and>
                (generate_content w (image_prompt grade_level) img = Raises \<or>
                 generate_content w (image_prompt grade_level) img = Returns (Response Raises) \<or>
                 (\<exists>t. generate_content w (image_prompt grade_level) img =
                        Returns (Response (Returns t)) \<and> strip t = [])))) \<longrightarrow>
            snd (analyze_homework_image w photo_bytes grade_level) \<in> {None, Some []} \<and>
            reply_texts (trace (handle_photo w grades user_id photo)) =
              [analyzing_message, image_apology]) \<and>
         (photo = [] \<or> get_file w (file_id (last photo)) = Raises \<or>
          (\<exists>photo_file. get_file w (file_id (last photo)) = Returns photo_file \<and>
             download_as_bytearray w photo_file = Raises) \<longrightarrow>
          reply_texts (trace (handle_photo w grades user_id photo)) =
            [analyzing_message, photo_error_apology]) \<and>
         raised (handle_text_question w grades user_id question) = None \<and>
         raised (handle_photo w grades user_id photo) = None \<and>
         distinct [text_apology, image_apology, photo_error_apology]"
proof (intro conjI allI impI)
  assume "send_message w (homework_prompt question grade_level) = Raises \<or>
          send_message w (homework_prompt question grade_level) = Returns (Response Raises) \<or>
          (\<exists>t. send_message w (homework_prompt question grade_level) =
                 Returns (Response (Returns t)) \<and> strip t = [])"
  then have "\<not> truthy (snd (get_homework_help w question grade_level))"
    by (auto simp: get_homework_help_answer)
  with assms show "reply_texts (trace (handle_text_question w grades user_id question)) =
    [text_apology]"
    by (simp add: handle_text_question_configured)
next
  fix photo_file photo_bytes
  assume h: "photo \<noteq> [] \<and> get_file w (file_id (last photo)) = Returns photo_file \<and>
            download_as_bytearray w photo_file = Returns photo_bytes \<and>
            (image_open w photo_bytes = Raises \<or>
             (\<exists>img. image_open w photo_bytes = Returns img \<and>
                (generate_content w (image_prompt grade_level) img = Raises \<or>
                 generate_content w (image_prompt grade_level) img = Returns (Response Raises) \<or>
                 (\<exists>t. generate_content w (image_prompt grade_level) img =
                        Returns (Response (Returns t)) \<and> strip t = []))))"
  then have nt: "\<not> truthy (snd (analyze_homework_image w photo_bytes grade_level))"
    using analyze_homework_image_failure [of w photo_bytes grade_level] by blast
  then show "snd (analyze_homework_image w photo_bytes grade_level) \<in> {None, Some []}"
    by (cases "snd (analyze_homework_image w photo_bytes grade_level)") simp_all
  have r: "reply_texts (fst (analyze_homework_image w photo_bytes grade_level)) = []"
    by (simp add: analyze_homework_image_def Let_def split: outcome.split)
  have app: "reply_texts (xs @ ys) = reply_texts xs @ reply_texts ys" for xs ys
    by (induction xs rule: reply_texts.induct) simp_all
  from h nt r assms
  show "reply_texts (trace (handle_photo w grades user_id photo)) =
              [analyzing_message, image_apology]"
    by (simp add: handle_photo_analyzed app)
next
  assume h: "photo = [] \<or> get_file w (file_id (last photo)) = Raises \<or>
          (\<exists>photo_file. get_file w (file_id (last photo)) = Returns photo_file \<and>
             download_as_bytearray w photo_file = Raises)"
  show "reply_texts (trace (handle_photo w grades user_id photo)) =
            [analyzing_message, photo_error_apology]"
  proof (cases "photo = []")
    case True
    with assms show ?thesis by (simp add: handle_photo_def)
  next
    case False
    with h assms show ?thesis
      by (auto simp: handle_photo_no_file handle_photo_no_download)
  qed
next
  show "raised (handle_text_question w grades user_id question) = None"
    by (rule handle_text_question_never_raises)
next
  show "raised (handle_photo w grades user_id photo) = None"
    by (rule handle_photo_never_raises)
next
  show "distinct [text_apology, image_apology, photo_error_apology]"
    by (simp add: apologies_differ)
qed

theorem failures_become_fixed_apologies_witness:
  "middle_registry 1 = Some (str ''middle'') \<and>
   send_message failing_world (homework_prompt multiplication_question (str ''middle'')) = Raises \<and>
   reply_texts (trace (handle_text_question failing_world middle_registry 1
     multiplication_question)) = [text_apology] \<and>
   [large_photo] \<noteq> [] \<and>
   get_file (mock_world []) (file_id (last [large_photo])) = Returns 0 \<and>
   download_as_bytearray (mock_world []) 0 = Returns [255, 216, 255] \<and>
   image_open (mock_world []) [255, 216, 255] = Returns 0 \<and>
   generate_content (mock_world []) (image_prompt (str ''middle'')) 0 =
     Returns (Response (Returns [])) \<and>
   strip [] = [] \<and>
   reply_texts (trace (handle_photo (mock_world []) middle_registry 1 [large_photo])) =
     [analyzing_message, image_apology]"
proof -
  let ?p = "homework_prompt multiplication_question (str ''middle'')"
  have g: "middle_registry 1 = Some (str ''middle'')"
    by (simp add: middle_registry_def)
  have s: "send_message failing_world ?p = Raises"
    by (simp add: failing_world_def always_raises_def)
  have f: "get_file (mock_world []) (file_id (last [large_photo])) = Returns 0"
    and d: "download_as_bytearray (mock_world []) 0 = Returns [255, 216, 255]"
    and i: "image_open (mock_world []) [255, 216, 255] = Returns 0"
    by (simp_all add: mock_world_def always_returns_def)
  have c: "generate_content (mock_world []) (image_prompt (str ''middle'')) 0 =
             Returns (Response (Returns []))"
    by (simp add: mock_world_def always_returns2_def)
  have e: "strip [] = []" by (simp add: strip_def)
  from failures_become_fixed_apologies
         [of middle_registry 1 "str ''middle''" failing_world multiplication_question
             "[large_photo]"] g s
  have t: "reply_texts (trace (handle_text_question failing_world middle_registry 1
     multiplication_question)) = [text_apology]"
    by blast
  from failures_become_fixed_apologies
         [of middle_registry 1 "str ''middle''" "mock_world []" multiplication_question
             "[large_photo]"] g f d i c e
  have p: "reply_texts (trace (handle_photo (mock_world []) middle_registry 1 [large_photo])) =
     [analyzing_message, image_apology]"
    by blast
  from g s t f d i c e p show ?thesis by simp
qed

text \<open>
  Claim C6 as it is written knows two apology strings and says that every failure
  of an external call is turned into an absent value where the call is made. When
  \<^verbatim>\<open>get_file\<close> raises, the photo handler itself replies, with a string that is
  neither of the two.
\<close>

theorem download_failure_has_its_own_apology:
  "middle_registry 1 = Some (str ''middle'') \<and>
   get_file failing_world (file_id (last [small_photo, large_photo])) = Raises \<and>
   reply_texts (trace (handle_photo failing_world middle_registry 1 [small_photo, large_photo])) =
     [analyzing_message, photo_error_apology] \<and>
   photo_error_apology \<noteq> text_apology \<and> photo_error_apology \<noteq> image_apology"
proof -
  have g: "middle_registry 1 = Some (str ''middle'')"
    by (simp add: middle_registry_def)
  have f: "get_file failing_world (file_id (last [small_photo, large_photo])) = Raises"
    by (simp add: failing_world_def always_raises_def)
  have n: "[small_photo, large_photo] \<noteq> []" by simp
  have "handle_photo failing_world middle_registry 1 [small_photo, large_photo] =
           \<lparr>user_grades = middle_registry,
            trace = [ReplyText analyzing_message,
                     GetFile (file_id (last [small_photo, large_photo])),
                     ReplyText photo_error_apology],
            raised = None\<rparr>"
    using g n f by (rule handle_photo_no_file)
  with g f show ?thesis
    by (simp add: apologies_differ)
qed

subsection \<open>Callback data and the grade table\<close>

text \<open>
  Claim C9, as amended. The callback data of the buttons that \<^verbatim>\<open>start\<close> and
  \<^verbatim>\<open>change_grade\<close> send match the pattern of the grade-selection handler and
  give one of the three tokens, so that for them the lookup in the grade table
  succeeds and nothing is raised. For callback data that match the pattern in
  general, the handler completes exactly when the data without \<^verbatim>\<open>grade_\<close> is
  one of the three tokens; otherwise the lookup raises \<^verbatim>\<open>KeyError\<close> after the
  callback was answered, and the registry is unchanged.
\<close>

theorem keyboard_callbacks_are_known_tokens:
  "(\<forall>button \<in> set grade_keyboard.
      grade_pattern (snd button) \<and>
      py_replace (str ''grade_'') [] (snd button) \<in> {str ''1-5'', str ''6-8'', str ''9-12''} \<and>
      GRADE_LEVELS (py_replace (str ''grade_'') [] (snd button)) \<noteq> None \<and>
      raised (dispatch w grades (CallbackUpdate user_id (snd button))) = None) \<and>
   trace (start grades) = [ReplyKeyboard welcome_message grade_keyboard] \<and>
   trace (change_grade grades) = [ReplyKeyboard (str ''Select new grade level:'') grade_keyboard] \<and>
   (grade_pattern data \<longrightarrow>
      (raised (dispatch w grades (CallbackUpdate user_id data)) = None \<longleftrightarrow>
         py_replace (str ''grade_'') [] data \<in> {str ''1-5'', str ''6-8'', str ''9-12''}) \<and>
      (py_replace (str ''grade_'') [] data \<notin> {str ''1-5'', str ''6-8'', str ''9-12''} \<longrightarrow>
         dispatch w grades (CallbackUpdate user_id data) =
           \<lparr>user_grades = grades, trace = [AnswerCallback], raised = Some KeyError\<rparr>))"
proof -
  have dom: "GRADE_LEVELS token \<noteq> None \<longleftrightarrow> token \<in> {str ''1-5'', str ''6-8'', str ''9-12''}"
    for token
    by (auto simp: GRADE_LEVELS_def)
  have pat: "grade_pattern (str ''grade_1-5'')" "grade_pattern (str ''grade_6-8'')"
    "grade_pattern (str ''grade_9-12'')"
    by (simp_all add: grade_pattern_def str_def)
  have kb: "\<forall>button \<in> set grade_keyboard.
      grade_pattern (snd button) \<and>
      py_replace (str ''grade_'') [] (snd button) \<in> {str ''1-5'', str ''6-8'', str ''9-12''} \<and>
      GRADE_LEVELS (py_replace (str ''grade_'') [] (snd button)) \<noteq> None \<and>
      raised (dispatch w grades (CallbackUpdate user_id (snd button))) = None"
    by (simp add: grade_keyboard_def pat replace_tokens grade_levels_eval
        handle_grade_selection_token)
  have gen: "grade_pattern data \<longrightarrow>
      (raised (dispatch w grades (CallbackUpdate user_id data)) = None \<longleftrightarrow>
         py_replace (str ''grade_'') [] data \<in> {str ''1-5'', str ''6-8'', str ''9-12''}) \<and>
      (py_replace (str ''grade_'') [] data \<notin> {str ''1-5'', str ''6-8'', str ''9-12''} \<longrightarrow>
         dispatch w grades (CallbackUpdate user_id data) =
           \<lparr>user_grades = grades, trace = [AnswerCallback], raised = Some KeyError\<rparr>)"
  proof (cases "GRADE_LEVELS (py_replace (str ''grade_'') [] data)")
    case None
    with dom [of "py_replace (str ''grade_'') [] data"] show ?thesis
      by (simp add: handle_grade_selection_unknown)
  next
    case (Some label)
    with dom [of "py_replace (str ''grade_'') [] data"] show ?thesis
      by (simp add: handle_grade_selection_token)
  qed
  from kb gen show ?thesis
    by (simp only: start_def change_grade_def result.simps simp_thms)
qed

theorem keyboard_callbacks_are_known_tokens_witness:
  "(str ''Grades 6-8'', str ''grade_6-8'') \<in> set grade_keyboard \<and>
   grade_pattern (str ''grade_6-8'') \<and>
   raised (dispatch failing_world middle_registry (CallbackUpdate 1 (str ''grade_6-8''))) = None \<and>
   grade_pattern (str ''grade_13'') \<and>
   py_replace (str ''grade_'') [] (str ''grade_13'') \<notin> {str ''1-5'', str ''6-8'', str ''9-12''} \<and>
   raised (dispatch failing_world middle_registry (CallbackUpdate 1 (str ''grade_13''))) =
     Some KeyError"
proof -
  have b: "(str ''Grades 6-8'', str ''grade_6-8'') \<in> set grade_keyboard"
    by (simp add: grade_keyboard_def)
  have p: "grade_pattern (str ''grade_13'')"
    by (simp add: grade_pattern_def str_def)
  have r: "py_replace (str ''grade_'') [] (str ''grade_13'') \<notin> {str ''1-5'', str ''6-8'', str ''9-12''}"
    by (simp add: str_def)
  from keyboard_callbacks_are_known_tokens
    [of failing_world middle_registry 1 "str ''grade_13''"] b p r
  show ?thesis by fastforce
qed

text \<open>
  Claim C9 as it is written speaks of every callback whose data match the pattern.
  The data \<^verbatim>\<open>grade_13\<close> match it and are dispatched to the handler, which raises
  \<^verbatim>\<open>KeyError\<close>.
\<close>

theorem unknown_grade_token_raises:
  "grade_pattern (str ''grade_13'') \<and>
   py_replace (str ''grade_'') [] (str ''grade_13'') = str ''13'' \<and>
   GRADE_LEVELS (str ''13'') = None \<and>
   dispatch failing_world middle_registry (CallbackUpdate 1 (str ''grade_13'')) =
     \<lparr>user_grades = middle_registry, trace = [AnswerCallback], raised = Some KeyError\<rparr>"
proof -
  have p: "grade_pattern (str ''grade_13'')"
    by (simp add: grade_pattern_def str_def)
  have r: "py_replace (str ''grade_'') [] (str ''grade_13'') = str ''13''"
    by (simp add: str_def)
  have g: "GRADE_LEVELS (str ''13'') = None"
    by (simp add: GRADE_LEVELS_def str_def)
  from p r g show ?thesis
    by (simp add: handle_grade_selection_unknown)
qed

end
